theory Spec2Isabelle
  imports Main
begin

section \<open>Python values used by app/models.py\<close>

text \<open>
  A Python \<open>str\<close> is a sequence of code points and \<open>max_length\<close>/\<open>min_length\<close> count
  code points, so a string is a list of code-point numbers. \<open>str\<close> turns an ASCII
  literal into such a string.
\<close>

type_synonym py_str = "nat list"

definition str :: "string \<Rightarrow> py_str" where
  "str s = map of_char s"

text \<open>
  \<open>datetime.datetime\<close> is kept as a point on the UTC time line (microseconds since the
  epoch); \<open>datetime.time\<close> is a time of day with its four fields, compared field by
  field as Python compares naive times.
\<close>

datatype datetime = Datetime int

datatype time = Time (hour: nat) (minute: nat) (second: nat) (microsecond: nat)

definition time_lt :: "time \<Rightarrow> time \<Rightarrow> bool" where
  "time_lt a b =
     (hour a < hour b \<or> (hour a = hour b \<and>
       (minute a < minute b \<or> (minute a = minute b \<and>
         (second a < second b \<or> (second a = second b \<and>
           microsecond a < microsecond b))))))"

definition time_le :: "time \<Rightarrow> time \<Rightarrow> bool" where
  "time_le a b = (a = b \<or> time_lt a b)"

section \<open>Field validation\<close>

text \<open>
  Constructing a class declared with \<open>table=False\<close> validates the keyword arguments
  against the \<open>Field(...)\<close> declarations. Every failing field contributes one entry
  (field name and kind of failure) and the entries of all fields are raised together as
  one \<open>ValidationError\<close>. Arguments are taken at their annotated Python type; the
  coercion of values of other types is not part of this model. A keyword argument is an
  \<open>option\<close>: \<open>None\<close> is an argument the caller left out. The argument for a field
  \<open>f\<close> is written \<open>f'\<close>, since \<open>f\<close> itself names the field of the record.
\<close>

datatype error_type =
    missing
  | string_too_short
  | string_too_long
  | greater_than_equal
  | less_than_equal
  | enum

type_synonym error_details = "string \<times> error_type"

datatype ValidationError = ValidationError "error_details list"

type_synonym 'a validated = "error_details list + 'a"

text \<open>\<open>Field(min_length=..., max_length=...)\<close> on a \<open>str\<close> field.\<close>

definition validate_str ::
  "nat option \<Rightarrow> nat option \<Rightarrow> string \<Rightarrow> py_str \<Rightarrow> py_str validated" where
  "validate_str min_length max_length loc v =
     (if (case min_length of None \<Rightarrow> False | Some m \<Rightarrow> length v < m)
        then Inl [(loc, string_too_short)]
      else if (case max_length of None \<Rightarrow> False | Some m \<Rightarrow> m < length v)
        then Inl [(loc, string_too_long)]
      else Inr v)"

text \<open>\<open>Field(ge=..., le=...)\<close> on an \<open>int\<close> field.\<close>

definition validate_int ::
  "int option \<Rightarrow> int option \<Rightarrow> string \<Rightarrow> int \<Rightarrow> int validated" where
  "validate_int ge le loc v =
     (if (case le of None \<Rightarrow> False | Some m \<Rightarrow> m < v)
        then Inl [(loc, less_than_equal)]
      else if (case ge of None \<Rightarrow> False | Some m \<Rightarrow> v < m)
        then Inl [(loc, greater_than_equal)]
      else Inr v)"

text \<open>A field with no constraint beyond its type (\<open>bool\<close>, \<open>time\<close>, \<open>datetime\<close>, plain \<open>int\<close>).\<close>

definition validate_any :: "string \<Rightarrow> 'a \<Rightarrow> 'a validated" where
  "validate_any loc v = Inr v"

text \<open>
  The three ways a field is declared: without a default (the argument is required), with
  a default value, and \<open>Optional[...]\<close> with default \<open>None\<close>. Defaults are not validated.
\<close>

definition required ::
  "(string \<Rightarrow> 'a \<Rightarrow> 'b validated) \<Rightarrow> string \<Rightarrow> 'a option \<Rightarrow> 'b validated" where
  "required validator loc arg =
     (case arg of None \<Rightarrow> Inl [(loc, missing)] | Some v \<Rightarrow> validator loc v)"

definition with_default ::
  "'b \<Rightarrow> (string \<Rightarrow> 'a \<Rightarrow> 'b validated) \<Rightarrow> string \<Rightarrow> 'a option \<Rightarrow> 'b validated" where
  "with_default d validator loc arg =
     (case arg of None \<Rightarrow> Inr d | Some v \<Rightarrow> validator loc v)"

definition optional ::
  "(string \<Rightarrow> 'a \<Rightarrow> 'b validated) \<Rightarrow> string \<Rightarrow> 'a option \<Rightarrow> 'b option validated" where
  "optional validator loc arg =
     (case arg of
        None \<Rightarrow> Inr None
      | Some v \<Rightarrow> (case validator loc v of Inl es \<Rightarrow> Inl es | Inr w \<Rightarrow> Inr (Some w)))"

text \<open>
  \<open>field\<close> adds one validated field to a partly built object, keeping the errors of
  both sides in field order; \<open>model\<close> raises them as one \<open>ValidationError\<close>.
\<close>

fun field :: "('a \<Rightarrow> 'b) validated \<Rightarrow> 'a validated \<Rightarrow> 'b validated" where
  "field (Inr f) (Inr v) = Inr (f v)"
| "field (Inr f) (Inl es) = Inl es"
| "field (Inl es) (Inr v) = Inl es"
| "field (Inl es) (Inl es') = Inl (es @ es')"

definition model :: "'a validated \<Rightarrow> ValidationError + 'a" where
  "model r = (case r of Inl es \<Rightarrow> Inl (ValidationError es) | Inr v \<Rightarrow> Inr v)"

section \<open>StudentCategory\<close>

text \<open>
  \<open>class StudentCategory(str, Enum)\<close>: four members, each of which is the string given
  by \<open>StudentCategory_value\<close>. Validating a field of this type looks the argument up
  among the members' values, as \<open>StudentCategory(v)\<close> does.
\<close>

datatype StudentCategory = SUB_JUNIOR | JUNIOR | SENIOR | SUPER_SENIOR

fun StudentCategory_value :: "StudentCategory \<Rightarrow> py_str" where
  "StudentCategory_value SUB_JUNIOR = str ''Sub Junior''"
| "StudentCategory_value JUNIOR = str ''Junior''"
| "StudentCategory_value SENIOR = str ''Senior''"
| "StudentCategory_value SUPER_SENIOR = str ''Super Senior''"

definition StudentCategory_members :: "StudentCategory list" where
  "StudentCategory_members = [SUB_JUNIOR, JUNIOR, SENIOR, SUPER_SENIOR]"

definition validate_StudentCategory :: "string \<Rightarrow> py_str \<Rightarrow> StudentCategory validated" where
  "validate_StudentCategory loc v =
     (case find (\<lambda>m. StudentCategory_value m = v) StudentCategory_members of
        None \<Rightarrow> Inl [(loc, enum)]
      | Some m \<Rightarrow> Inr m)"

section \<open>Persistent models (\<open>table=True\<close>)\<close>

text \<open>
  The source separates "Persistent models (stored in database)" from "Non-persistent
  schemas (for validation, forms, API requests/responses)". A class declared with
  \<open>table=True\<close> is constructed without validation: SQLModel
  stores each keyword argument as it is given and fills a field that was left out from
  its \<open>default\<close> or \<open>default_factory\<close>; the \<open>Field\<close> bounds are not checked and no
  \<open>ValidationError\<close> is raised. The constructors below take the fields declared
  without a default as plain arguments and the others as \<open>option\<close>s. The reading of
  the clock that \<open>default_factory=datetime.utcnow\<close> makes is the argument \<open>utcnow\<close>.
  The \<open>Relationship\<close> attributes are loaded by the ORM and are not fields of the
  records. Since nothing is converted, \<open>Student.category\<close> holds the string that was
  passed (a member of \<open>StudentCategory\<close> is such a string).
\<close>

definition or_default :: "'a \<Rightarrow> 'a option \<Rightarrow> 'a" where
  "or_default d arg = (case arg of None \<Rightarrow> d | Some v \<Rightarrow> v)"

record Admin =
  id :: "int option"
  username :: py_str
  password_hash :: py_str
  name :: py_str
  email :: py_str
  is_active :: bool
  created_at :: datetime

definition Admin_init ::
  "datetime \<Rightarrow> int option \<Rightarrow> py_str \<Rightarrow> py_str \<Rightarrow> py_str \<Rightarrow> py_str \<Rightarrow> bool option
     \<Rightarrow> datetime option \<Rightarrow> Admin" where
  "Admin_init utcnow id' username' password_hash' name' email' is_active' created_at' =
     \<lparr>Admin.id = id', Admin.username = username', Admin.password_hash = password_hash',
      Admin.name = name', Admin.email = email',
      Admin.is_active = or_default True is_active',
      Admin.created_at = or_default utcnow created_at'\<rparr>"

record Student =
  id :: "int option"
  name :: py_str
  class_name :: py_str
  category :: py_str
  is_active :: bool
  created_at :: datetime

definition Student_init ::
  "datetime \<Rightarrow> int option \<Rightarrow> py_str \<Rightarrow> py_str \<Rightarrow> py_str option \<Rightarrow> bool option
     \<Rightarrow> datetime option \<Rightarrow> Student" where
  "Student_init utcnow id' name' class_name' category' is_active' created_at' =
     \<lparr>Student.id = id', Student.name = name', Student.class_name = class_name',
      Student.category = or_default (StudentCategory_value SUB_JUNIOR) category',
      Student.is_active = or_default True is_active',
      Student.created_at = or_default utcnow created_at'\<rparr>"

record Event =
  id :: "int option"
  name :: py_str
  category :: py_str
  max_participants :: "int option"
  priority :: int
  average_time_minutes :: int
  description :: py_str
  is_active :: bool
  created_at :: datetime

definition Event_init ::
  "datetime \<Rightarrow> int option \<Rightarrow> py_str \<Rightarrow> py_str \<Rightarrow> int option \<Rightarrow> int option \<Rightarrow> int option
     \<Rightarrow> py_str option \<Rightarrow> bool option \<Rightarrow> datetime option \<Rightarrow> Event" where
  "Event_init utcnow id' name' category' max_participants' priority' average_time_minutes'
       description' is_active' created_at' =
     \<lparr>Event.id = id', Event.name = name', Event.category = category',
      Event.max_participants = max_participants',
      Event.priority = or_default 1 priority',
      Event.average_time_minutes = or_default 30 average_time_minutes',
      Event.description = or_default (str '''') description',
      Event.is_active = or_default True is_active',
      Event.created_at = or_default utcnow created_at'\<rparr>"

record EventParticipant =
  id :: "int option"
  student_id :: int
  event_id :: int
  assigned_by_admin_id :: int
  assigned_at :: datetime

definition EventParticipant_init ::
  "datetime \<Rightarrow> int option \<Rightarrow> int \<Rightarrow> int \<Rightarrow> int \<Rightarrow> datetime option \<Rightarrow> EventParticipant" where
  "EventParticipant_init utcnow id' student_id' event_id' assigned_by_admin_id' assigned_at' =
     \<lparr>EventParticipant.id = id', EventParticipant.student_id = student_id',
      EventParticipant.event_id = event_id',
      EventParticipant.assigned_by_admin_id = assigned_by_admin_id',
      EventParticipant.assigned_at = or_default utcnow assigned_at'\<rparr>"

text \<open>
  \<open>__table_args__\<close> of a table: positional entries are constraints, a dictionary holds
  keyword options. \<open>EventParticipant\<close> declares the dictionary \<open>{"extend_existing": True}\<close>
  and nothing else.
\<close>

datatype table_arg = UniqueConstraint "string list" | Keywords "(string \<times> bool) list"

definition EventParticipant_table_args :: "table_arg list" where
  "EventParticipant_table_args = [Keywords [(''extend_existing'', True)]]"

fun unique_constraints :: "table_arg list \<Rightarrow> string list list" where
  "unique_constraints [] = []"
| "unique_constraints (UniqueConstraint cols # args) = cols # unique_constraints args"
| "unique_constraints (Keywords kw # args) = unique_constraints args"

record ScheduleSlot =
  id :: "int option"
  schedule_id :: int
  event_id :: int
  start_time :: time
  end_time :: time
  venue :: py_str
  "notes" :: py_str
  order_index :: int
  created_at :: datetime

definition ScheduleSlot_init ::
  "datetime \<Rightarrow> int option \<Rightarrow> int \<Rightarrow> int \<Rightarrow> time \<Rightarrow> time \<Rightarrow> py_str option \<Rightarrow> py_str option
     \<Rightarrow> int option \<Rightarrow> datetime option \<Rightarrow> ScheduleSlot" where
  "ScheduleSlot_init utcnow id' schedule_id' event_id' start_time' end_time' venue' notes'
       order_index' created_at' =
     \<lparr>ScheduleSlot.id = id', ScheduleSlot.schedule_id = schedule_id',
      ScheduleSlot.event_id = event_id',
      ScheduleSlot.start_time = start_time', ScheduleSlot.end_time = end_time',
      ScheduleSlot.venue = or_default (str '''') venue',
      ScheduleSlot.notes = or_default (str '''') notes',
      ScheduleSlot.order_index = or_default 0 order_index',
      ScheduleSlot.created_at = or_default utcnow created_at'\<rparr>"

section \<open>Non-persistent schemas (\<open>table=False\<close>)\<close>

record AdminCreate =
  username :: py_str
  password :: py_str
  name :: py_str
  email :: py_str

definition AdminCreate_init ::
  "py_str option \<Rightarrow> py_str option \<Rightarrow> py_str option \<Rightarrow> py_str option
     \<Rightarrow> ValidationError + AdminCreate" where
  "AdminCreate_init username' password' name' email' =
     model (field (field (field (field
       (Inr (\<lambda>u p n e. \<lparr>AdminCreate.username = u, AdminCreate.password = p,
                         AdminCreate.name = n, AdminCreate.email = e\<rparr>))
       (required (validate_str None (Some 50)) ''username'' username'))
       (required (validate_str (Some 6) (Some 100)) ''password'' password'))
       (required (validate_str None (Some 100)) ''name'' name'))
       (required (validate_str None (Some 255)) ''email'' email'))"

record AdminUpdate =
  name :: "py_str option"
  email :: "py_str option"
  is_active :: "bool option"

definition AdminUpdate_init ::
  "py_str option \<Rightarrow> py_str option \<Rightarrow> bool option \<Rightarrow> ValidationError + AdminUpdate" where
  "AdminUpdate_init name' email' is_active' =
     model (field (field (field
       (Inr (\<lambda>n e a. \<lparr>AdminUpdate.name = n, AdminUpdate.email = e,
                       AdminUpdate.is_active = a\<rparr>))
       (optional (validate_str None (Some 100)) ''name'' name'))
       (optional (validate_str None (Some 255)) ''email'' email'))
       (optional validate_any ''is_active'' is_active'))"

record AdminLogin =
  username :: py_str
  password :: py_str

definition AdminLogin_init ::
  "py_str option \<Rightarrow> py_str option \<Rightarrow> ValidationError + AdminLogin" where
  "AdminLogin_init username' password' =
     model (field (field
       (Inr (\<lambda>u p. \<lparr>AdminLogin.username = u, AdminLogin.password = p\<rparr>))
       (required (validate_str None (Some 50)) ''username'' username'))
       (required (validate_str None (Some 100)) ''password'' password'))"

record StudentCreate =
  name :: py_str
  class_name :: py_str
  category :: StudentCategory

definition StudentCreate_init ::
  "py_str option \<Rightarrow> py_str option \<Rightarrow> py_str option \<Rightarrow> ValidationError + StudentCreate" where
  "StudentCreate_init name' class_name' category' =
     model (field (field (field
       (Inr (\<lambda>n c g. \<lparr>StudentCreate.name = n, StudentCreate.class_name = c,
                       StudentCreate.category = g\<rparr>))
       (required (validate_str None (Some 100)) ''name'' name'))
       (required (validate_str None (Some 50)) ''class_name'' class_name'))
       (with_default SUB_JUNIOR validate_StudentCategory ''category'' category'))"

record StudentUpdate =
  name :: "py_str option"
  class_name :: "py_str option"
  category :: "StudentCategory option"
  is_active :: "bool option"

definition StudentUpdate_init ::
  "py_str option \<Rightarrow> py_str option \<Rightarrow> py_str option \<Rightarrow> bool option
     \<Rightarrow> ValidationError + StudentUpdate" where
  "StudentUpdate_init name' class_name' category' is_active' =
     model (field (field (field (field
       (Inr (\<lambda>n c g a. \<lparr>StudentUpdate.name = n, StudentUpdate.class_name = c,
                         StudentUpdate.category = g, StudentUpdate.is_active = a\<rparr>))
       (optional (validate_str None (Some 100)) ''name'' name'))
       (optional (validate_str None (Some 50)) ''class_name'' class_name'))
       (optional validate_StudentCategory ''category'' category'))
       (optional validate_any ''is_active'' is_active'))"

record EventCreate =
  name :: py_str
  category :: py_str
  max_participants :: "int option"
  priority :: int
  average_time_minutes :: int
  description :: py_str

definition EventCreate_init ::
  "py_str option \<Rightarrow> py_str option \<Rightarrow> int option \<Rightarrow> int option \<Rightarrow> int option
     \<Rightarrow> py_str option \<Rightarrow> ValidationError + EventCreate" where
  "EventCreate_init name' category' max_participants' priority' average_time_minutes'
       description' =
     model (field (field (field (field (field (field
       (Inr (\<lambda>n c m p t d. \<lparr>EventCreate.name = n, EventCreate.category = c,
                             EventCreate.max_participants = m, EventCreate.priority = p,
                             EventCreate.average_time_minutes = t,
                             EventCreate.description = d\<rparr>))
       (required (validate_str None (Some 200)) ''name'' name'))
       (required (validate_str None (Some 100)) ''category'' category'))
       (optional (validate_int (Some 1) None) ''max_participants'' max_participants'))
       (with_default 1 (validate_int (Some 1) (Some 10)) ''priority'' priority'))
       (with_default 30 (validate_int (Some 1) None) ''average_time_minutes''
          average_time_minutes'))
       (with_default (str '''') (validate_str None (Some 1000)) ''description'' description'))"

record EventUpdate =
  name :: "py_str option"
  category :: "py_str option"
  max_participants :: "int option"
  priority :: "int option"
  average_time_minutes :: "int option"
  description :: "py_str option"
  is_active :: "bool option"

definition EventUpdate_init ::
  "py_str option \<Rightarrow> py_str option \<Rightarrow> int option \<Rightarrow> int option \<Rightarrow> int option
     \<Rightarrow> py_str option \<Rightarrow> bool option \<Rightarrow> ValidationError + EventUpdate" where
  "EventUpdate_init name' category' max_participants' priority' average_time_minutes'
       description' is_active' =
     model (field (field (field (field (field (field (field
       (Inr (\<lambda>n c m p t d a. \<lparr>EventUpdate.name = n, EventUpdate.category = c,
                               EventUpdate.max_participants = m, EventUpdate.priority = p,
                               EventUpdate.average_time_minutes = t,
                               EventUpdate.description = d, EventUpdate.is_active = a\<rparr>))
       (optional (validate_str None (Some 200)) ''name'' name'))
       (optional (validate_str None (Some 100)) ''category'' category'))
       (optional (validate_int (Some 1) None) ''max_participants'' max_participants'))
       (optional (validate_int (Some 1) (Some 10)) ''priority'' priority'))
       (optional (validate_int (Some 1) None) ''average_time_minutes''
          average_time_minutes'))
       (optional (validate_str None (Some 1000)) ''description'' description'))
       (optional validate_any ''is_active'' is_active'))"

record EventParticipantCreate =
  student_id :: int
  event_id :: int
  assigned_by_admin_id :: int

definition EventParticipantCreate_init ::
  "int option \<Rightarrow> int option \<Rightarrow> int option \<Rightarrow> ValidationError + EventParticipantCreate" where
  "EventParticipantCreate_init student_id' event_id' assigned_by_admin_id' =
     model (field (field (field
       (Inr (\<lambda>s e a. \<lparr>EventParticipantCreate.student_id = s,
                       EventParticipantCreate.event_id = e,
                       EventParticipantCreate.assigned_by_admin_id = a\<rparr>))
       (required validate_any ''student_id'' student_id'))
       (required validate_any ''event_id'' event_id'))
       (required validate_any ''assigned_by_admin_id'' assigned_by_admin_id'))"

record ScheduleSlotCreate =
  schedule_id :: int
  event_id :: int
  start_time :: time
  end_time :: time
  venue :: py_str
  "notes" :: py_str
  order_index :: int

definition ScheduleSlotCreate_init ::
  "int option \<Rightarrow> int option \<Rightarrow> time option \<Rightarrow> time option \<Rightarrow> py_str option
     \<Rightarrow> py_str option \<Rightarrow> int option \<Rightarrow> ValidationError + ScheduleSlotCreate" where
  "ScheduleSlotCreate_init schedule_id' event_id' start_time' end_time' venue' notes'
       order_index' =
     model (field (field (field (field (field (field (field
       (Inr (\<lambda>s e b f v n i. \<lparr>ScheduleSlotCreate.schedule_id = s,
                               ScheduleSlotCreate.event_id = e,
                               ScheduleSlotCreate.start_time = b,
                               ScheduleSlotCreate.end_time = f,
                               ScheduleSlotCreate.venue = v, ScheduleSlotCreate.notes = n,
                               ScheduleSlotCreate.order_index = i\<rparr>))
       (required validate_any ''schedule_id'' schedule_id'))
       (required validate_any ''event_id'' event_id'))
       (required validate_any ''start_time'' start_time'))
       (required validate_any ''end_time'' end_time'))
       (with_default (str '''') (validate_str None (Some 200)) ''venue'' venue'))
       (with_default (str '''') (validate_str None (Some 500)) ''notes'' notes'))
       (with_default 0 (validate_int (Some 0) None) ''order_index'' order_index'))"

record ScheduleSlotUpdate =
  start_time :: "time option"
  end_time :: "time option"
  venue :: "py_str option"
  "notes" :: "py_str option"
  order_index :: "int option"

definition ScheduleSlotUpdate_init ::
  "time option \<Rightarrow> time option \<Rightarrow> py_str option \<Rightarrow> py_str option \<Rightarrow> int option
     \<Rightarrow> ValidationError + ScheduleSlotUpdate" where
  "ScheduleSlotUpdate_init start_time' end_time' venue' notes' order_index' =
     model (field (field (field (field (field
       (Inr (\<lambda>b f v n i. \<lparr>ScheduleSlotUpdate.start_time = b,
                           ScheduleSlotUpdate.end_time = f,
                           ScheduleSlotUpdate.venue = v, ScheduleSlotUpdate.notes = n,
                           ScheduleSlotUpdate.order_index = i\<rparr>))
       (optional validate_any ''start_time'' start_time'))
       (optional validate_any ''end_time'' end_time'))
       (optional (validate_str None (Some 200)) ''venue'' venue'))
       (optional (validate_str None (Some 500)) ''notes'' notes'))
       (optional (validate_int (Some 0) None) ''order_index'' order_index'))"

section \<open>Applying an Update shape\<close>

text \<open>
  Modelled from the spec: the function that applies an Update shape to a persisted
  entity is not in app/models.py, which declares the shapes only. The spec describes it
  as "mutated via sparse Update shapes (only provided fields change)": a field of the
  shape that holds a value replaces the entity's field of the same name, and a field
  that holds \<open>None\<close> leaves it as it was. \<open>provided\<close> is that choice for one field.
\<close>

definition provided :: "'a option \<Rightarrow> 'a \<Rightarrow> 'a" where
  "provided new old = (case new of None \<Rightarrow> old | Some v \<Rightarrow> v)"

text \<open>Modelled from the spec: applying an \<open>AdminUpdate\<close> to an \<open>Admin\<close>.\<close>

definition Admin_update :: "Admin \<Rightarrow> AdminUpdate \<Rightarrow> Admin" where
  "Admin_update a u =
     a\<lparr>Admin.name := provided (AdminUpdate.name u) (Admin.name a),
       Admin.email := provided (AdminUpdate.email u) (Admin.email a),
       Admin.is_active := provided (AdminUpdate.is_active u) (Admin.is_active a)\<rparr>"

text \<open>
  Modelled from the spec: applying a \<open>StudentUpdate\<close> to a \<open>Student\<close>. The category
  is stored as the string that the member stands for.
\<close>

definition Student_update :: "Student \<Rightarrow> StudentUpdate \<Rightarrow> Student" where
  "Student_update s u =
     s\<lparr>Student.name := provided (StudentUpdate.name u) (Student.name s),
       Student.class_name := provided (StudentUpdate.class_name u) (Student.class_name s),
       Student.category :=
         provided (map_option StudentCategory_value (StudentUpdate.category u))
           (Student.category s),
       Student.is_active := provided (StudentUpdate.is_active u) (Student.is_active s)\<rparr>"

text \<open>
  Modelled from the spec: applying an \<open>EventUpdate\<close> to an \<open>Event\<close>. The entity's
  \<open>max_participants\<close> is itself optional; a provided value replaces it.
\<close>

definition Event_update :: "Event \<Rightarrow> EventUpdate \<Rightarrow> Event" where
  "Event_update e u =
     e\<lparr>Event.name := provided (EventUpdate.name u) (Event.name e),
       Event.category := provided (EventUpdate.category u) (Event.category e),
       Event.max_participants :=
         provided (map_option Some (EventUpdate.max_participants u)) (Event.max_participants e),
       Event.priority := provided (EventUpdate.priority u) (Event.priority e),
       Event.average_time_minutes :=
         provided (EventUpdate.average_time_minutes u) (Event.average_time_minutes e),
       Event.description := provided (EventUpdate.description u) (Event.description e),
       Event.is_active := provided (EventUpdate.is_active u) (Event.is_active e)\<rparr>"

text \<open>Modelled from the spec: applying a \<open>ScheduleSlotUpdate\<close> to a \<open>ScheduleSlot\<close>.\<close>

definition ScheduleSlot_update :: "ScheduleSlot \<Rightarrow> ScheduleSlotUpdate \<Rightarrow> ScheduleSlot" where
  "ScheduleSlot_update s u =
     s\<lparr>ScheduleSlot.start_time :=
         provided (ScheduleSlotUpdate.start_time u) (ScheduleSlot.start_time s),
       ScheduleSlot.end_time :=
         provided (ScheduleSlotUpdate.end_time u) (ScheduleSlot.end_time s),
       ScheduleSlot.venue := provided (ScheduleSlotUpdate.venue u) (ScheduleSlot.venue s),
       ScheduleSlot.notes := provided (ScheduleSlotUpdate.notes u) (ScheduleSlot.notes s),
       ScheduleSlot.order_index :=
         provided (ScheduleSlotUpdate.order_index u) (ScheduleSlot.order_index s)\<rparr>"

section \<open>Reading a result\<close>

text \<open>
  \<open>errors_of\<close> lists the entries a partly built object has collected. \<open>raises r loc ty\<close>:
  the construction \<open>r\<close> raised a \<open>ValidationError\<close> with an entry of kind \<open>ty\<close> for
  the field \<open>loc\<close>. \<open>StudentCategory_values\<close> are the strings of the enumeration.
\<close>

fun errors_of :: "'a validated \<Rightarrow> error_details list" where
  "errors_of (Inl es) = es"
| "errors_of (Inr v) = []"

fun errors :: "ValidationError \<Rightarrow> error_details list" where
  "errors (ValidationError es) = es"

definition raises :: "ValidationError + 'a \<Rightarrow> string \<Rightarrow> error_type \<Rightarrow> bool" where
  "raises r loc ty = (case r of Inl e \<Rightarrow> (loc, ty) \<in> set (errors e) | Inr v \<Rightarrow> False)"

definition StudentCategory_values :: "py_str set" where
  "StudentCategory_values = set (map StudentCategory_value StudentCategory_members)"

section \<open>Facts about validation\<close>

lemma field_Inr_iff:
  "field f x = Inr y \<longleftrightarrow> (\<exists>g v. f = Inr g \<and> x = Inr v \<and> y = g v)"
  by (cases f; cases x) auto

lemma errors_of_field: "errors_of (field f x) = errors_of f @ errors_of x"
  by (cases f; cases x) auto

lemma raises_model: "raises (model r) loc ty \<longleftrightarrow> (loc, ty) \<in> set (errors_of r)"
  by (cases r) (auto simp: raises_def model_def)

lemma model_Inr_iff: "model r = Inr v \<longleftrightarrow> r = Inr v"
  by (cases r) (auto simp: model_def)

lemma StudentCategory_values_eq:
  "StudentCategory_values =
     {str ''Sub Junior'', str ''Junior'', str ''Senior'', str ''Super Senior''}"
  by (simp add: StudentCategory_values_def StudentCategory_members_def)

lemma StudentCategory_value_in: "StudentCategory_value m \<in> StudentCategory_values"
  by (cases m) (simp_all add: StudentCategory_values_eq)

lemma validate_StudentCategory_Inr_iff:
  "validate_StudentCategory loc v = Inr m \<longleftrightarrow> StudentCategory_value m = v"
proof
  assume "validate_StudentCategory loc v = Inr m"
  then have "find (\<lambda>m. StudentCategory_value m = v) StudentCategory_members = Some m"
    by (simp add: validate_StudentCategory_def split: option.splits)
  then show "StudentCategory_value m = v"
    by (auto simp: find_Some_iff)
next
  assume v: "StudentCategory_value m = v"
  show "validate_StudentCategory loc v = Inr m"
    unfolding v [symmetric]
    by (cases m) (simp_all add: validate_StudentCategory_def StudentCategory_members_def str_def)
qed

lemma validate_StudentCategory_Inl:
  "v \<notin> StudentCategory_values \<Longrightarrow> validate_StudentCategory loc v = Inl [(loc, enum)]"
  by (auto simp: validate_StudentCategory_def StudentCategory_values_def find_None_iff
      split: option.splits)

lemma validate_int_Inr_iff:
  "validate_int lo hi loc v = Inr w \<longleftrightarrow>
     w = v \<and> (case lo of None \<Rightarrow> True | Some m \<Rightarrow> m \<le> v) \<and>
     (case hi of None \<Rightarrow> True | Some m \<Rightarrow> v \<le> m)"
  by (auto simp: validate_int_def split: option.splits)

lemma with_default_Inr_iff:
  "with_default d validator loc arg = Inr w \<longleftrightarrow>
     (case arg of None \<Rightarrow> w = d | Some v \<Rightarrow> validator loc v = Inr w)"
  by (auto simp: with_default_def split: option.splits)

lemma optional_Inr_iff:
  "optional validator loc arg = Inr w \<longleftrightarrow>
     (case arg of None \<Rightarrow> w = None | Some v \<Rightarrow> (\<exists>x. validator loc v = Inr x \<and> w = Some x))"
  by (auto simp: optional_def split: option.splits sum.splits)

lemmas init_eval =
  model_def required_def with_default_def optional_def validate_str_def validate_int_def
  validate_any_def validate_StudentCategory_def StudentCategory_members_def str_def

lemma EventCreate_example_eval:
  "EventCreate_init (Some (str ''Elocution English'')) (Some (str ''Elocution'')) None
      (Some 5) (Some 20) None =
     Inr \<lparr>EventCreate.name = str ''Elocution English'', EventCreate.category = str ''Elocution'',
          EventCreate.max_participants = None, EventCreate.priority = 5,
          EventCreate.average_time_minutes = 20, EventCreate.description = str ''''\<rparr>"
  by (simp add: EventCreate_init_def init_eval)

section \<open>Student category\<close>

text \<open>
  C1, as stated, fails for the persisted model. \<open>Student\<close> is declared with
  \<open>table=True\<close>, so constructing it does not validate: a category outside the four
  values is stored as given and nothing is raised.
\<close>

theorem Student_category_counterexample:
  "Student.category
     (Student_init (Datetime 0) None (str ''Asha'') (str ''5 B'') (Some (str ''Adult'')) None None)
     \<notin> {str ''Sub Junior'', str ''Junior'', str ''Senior'', str ''Super Senior''}"
  by (simp add: Student_init_def or_default_def str_def)

text \<open>
  C1, amended. The values of the enumeration are exactly the four strings. A
  \<open>StudentCreate\<close> or \<open>StudentUpdate\<close> that is constructed with a category holds the
  member for that string, which is one of the four; constructing either with any other
  category raises a \<open>ValidationError\<close> with an \<open>enum\<close> entry for \<open>category\<close>. A
  \<open>StudentUpdate\<close> constructed without a category holds \<open>None\<close>. A \<open>Student\<close>
  constructed from the fields of a \<open>StudentCreate\<close> holds one of the four values.
\<close>

theorem StudentCreate_category:
  "StudentCategory_values =
     {str ''Sub Junior'', str ''Junior'', str ''Senior'', str ''Super Senior''} \<and>
   (StudentCreate_init n c (Some g) = Inr r \<longrightarrow>
      g \<in> StudentCategory_values \<and> StudentCategory_value (StudentCreate.category r) = g) \<and>
   (g \<notin> StudentCategory_values \<longrightarrow>
      raises (StudentCreate_init n c (Some g)) ''category'' enum) \<and>
   (StudentUpdate_init n c (Some g) a = Inr u \<longrightarrow>
      g \<in> StudentCategory_values \<and>
      map_option StudentCategory_value (StudentUpdate.category u) = Some g) \<and>
   (g \<notin> StudentCategory_values \<longrightarrow>
      raises (StudentUpdate_init n c (Some g) a) ''category'' enum) \<and>
   (StudentUpdate_init n c None a = Inr u' \<longrightarrow> StudentUpdate.category u' = None) \<and>
   Student.category
     (Student_init utcnow i (StudentCreate.name r') (StudentCreate.class_name r')
        (Some (StudentCategory_value (StudentCreate.category r'))) act t)
     \<in> StudentCategory_values"
proof (intro conjI impI)
  show "StudentCategory_values =
     {str ''Sub Junior'', str ''Junior'', str ''Senior'', str ''Super Senior''}"
    by (rule StudentCategory_values_eq)
next
  assume "StudentCreate_init n c (Some g) = Inr r"
  then have "StudentCategory_value (StudentCreate.category r) = g"
    by (auto simp: StudentCreate_init_def model_Inr_iff field_Inr_iff with_default_def
        validate_StudentCategory_Inr_iff)
  then show "g \<in> StudentCategory_values"
    and "StudentCategory_value (StudentCreate.category r) = g"
    using StudentCategory_value_in [of "StudentCreate.category r"] by simp_all
next
  assume "g \<notin> StudentCategory_values"
  then show "raises (StudentCreate_init n c (Some g)) ''category'' enum"
    by (simp add: StudentCreate_init_def raises_model errors_of_field with_default_def
        validate_StudentCategory_Inl)
next
  assume "StudentUpdate_init n c (Some g) a = Inr u"
  then obtain m where m: "StudentUpdate.category u = Some m" "StudentCategory_value m = g"
    by (auto simp: StudentUpdate_init_def model_Inr_iff field_Inr_iff optional_def
        validate_StudentCategory_Inr_iff split: sum.splits)
  then show "g \<in> StudentCategory_values"
    and "map_option StudentCategory_value (StudentUpdate.category u) = Some g"
    using StudentCategory_value_in [of m] by simp_all
next
  assume "g \<notin> StudentCategory_values"
  then show "raises (StudentUpdate_init n c (Some g) a) ''category'' enum"
    by (simp add: StudentUpdate_init_def raises_model errors_of_field optional_def
        validate_StudentCategory_Inl)
next
  assume "StudentUpdate_init n c None a = Inr u'"
  then show "StudentUpdate.category u' = None"
    by (auto simp: StudentUpdate_init_def model_Inr_iff field_Inr_iff optional_def)
next
  show "Student.category
     (Student_init utcnow i (StudentCreate.name r') (StudentCreate.class_name r')
        (Some (StudentCategory_value (StudentCreate.category r'))) act t)
     \<in> StudentCategory_values"
    by (simp add: Student_init_def or_default_def StudentCategory_value_in)
qed

text \<open>
  The amended C1 at concrete inputs: the category \<open>Junior\<close> is accepted by both shapes,
  \<open>Adult\<close> is rejected by both, and a \<open>StudentUpdate\<close> with no argument is accepted.
\<close>

theorem StudentCreate_category_witness:
  "StudentCreate_init (Some (str ''Asha'')) (Some (str ''5 B'')) (Some (str ''Junior'')) =
     Inr \<lparr>StudentCreate.name = str ''Asha'', StudentCreate.class_name = str ''5 B'',
          StudentCreate.category = JUNIOR\<rparr> \<and>
   str ''Junior'' \<in> StudentCategory_values \<and>
   str ''Adult'' \<notin> StudentCategory_values \<and>
   raises (StudentCreate_init (Some (str ''Asha'')) (Some (str ''5 B'')) (Some (str ''Adult'')))
     ''category'' enum \<and>
   StudentUpdate_init None None (Some (str ''Junior'')) None =
     Inr \<lparr>StudentUpdate.name = None, StudentUpdate.class_name = None,
          StudentUpdate.category = Some JUNIOR, StudentUpdate.is_active = None\<rparr> \<and>
   raises (StudentUpdate_init None None (Some (str ''Adult'')) None) ''category'' enum \<and>
   StudentUpdate_init None None None None =
     Inr \<lparr>StudentUpdate.name = None, StudentUpdate.class_name = None,
          StudentUpdate.category = None, StudentUpdate.is_active = None\<rparr>"
proof -
  let ?r = "\<lparr>StudentCreate.name = str ''Asha'', StudentCreate.class_name = str ''5 B'',
          StudentCreate.category = JUNIOR\<rparr>"
  let ?u = "\<lparr>StudentUpdate.name = None, StudentUpdate.class_name = None,
          StudentUpdate.category = Some JUNIOR, StudentUpdate.is_active = None\<rparr>"
  let ?u' = "\<lparr>StudentUpdate.name = None, StudentUpdate.class_name = None,
          StudentUpdate.category = None, StudentUpdate.is_active = None\<rparr>"
  have c: "StudentCreate_init (Some (str ''Asha'')) (Some (str ''5 B'')) (Some (str ''Junior''))
      = Inr ?r"
    by (simp add: StudentCreate_init_def init_eval)
  have u: "StudentUpdate_init None None (Some (str ''Junior'')) None = Inr ?u"
    by (simp add: StudentUpdate_init_def init_eval)
  have u': "StudentUpdate_init None None None None = Inr ?u'"
    by (simp add: StudentUpdate_init_def init_eval)
  have bad: "str ''Adult'' \<notin> StudentCategory_values"
    by (simp add: StudentCategory_values_def StudentCategory_members_def str_def)
  note ok = StudentCreate_category [of "Some (str ''Asha'')" "Some (str ''5 B'')"
      "str ''Junior''" ?r None ?u ?u']
  note ko = StudentCreate_category [of "Some (str ''Asha'')" "Some (str ''5 B'')"
      "str ''Adult''"]
  note ko' = StudentCreate_category [of None None "str ''Adult''" _ None]
  have 1: "str ''Junior'' \<in> StudentCategory_values"
    using ok [THEN conjunct2, THEN conjunct1, THEN mp, OF c] by (rule conjunct1)
  have 2: "raises (StudentCreate_init (Some (str ''Asha'')) (Some (str ''5 B''))
      (Some (str ''Adult''))) ''category'' enum"
    by (rule ko [THEN conjunct2, THEN conjunct2, THEN conjunct1, THEN mp, OF bad])
  have 3: "raises (StudentUpdate_init None None (Some (str ''Adult'')) None) ''category'' enum"
    by (rule ko' [THEN conjunct2, THEN conjunct2, THEN conjunct2, THEN conjunct2,
          THEN conjunct1, THEN mp, OF bad])
  show ?thesis
    by (intro conjI) (rule c 1 bad 2 u 3 u')+
qed

section \<open>Event priority and duration\<close>

text \<open>
  C2, as stated, fails for the persisted model. \<open>Event\<close> is declared with
  \<open>table=True\<close>, so constructing it does not validate: a priority of 11 and an
  average time of 0 minutes are stored as given and nothing is raised.
\<close>

theorem Event_bounds_counterexample:
  "\<not> Event.priority
       (Event_init (Datetime 0) None (str ''Quiz'') (str ''Quiz'') None (Some 11) (Some 0)
          None None None) \<le> 10 \<and>
   \<not> 1 \<le> Event.average_time_minutes
       (Event_init (Datetime 0) None (str ''Quiz'') (str ''Quiz'') None (Some 11) (Some 0)
          None None None)"
  by (simp add: Event_init_def or_default_def)

text \<open>
  C2, amended. Every \<open>EventCreate\<close> that is constructed has a priority from 1 to 10
  and an average time of at least 1 minute, and so has the \<open>Event\<close> constructed from
  its fields. Constructing an \<open>EventCreate\<close> with a priority below 1 or above 10, or
  with an average time below 1, raises a \<open>ValidationError\<close> with an entry for that
  field, whatever the other arguments are.
\<close>

theorem EventCreate_bounds:
  "(EventCreate_init n c m p t d = Inr r \<longrightarrow>
      1 \<le> EventCreate.priority r \<and> EventCreate.priority r \<le> 10 \<and>
      1 \<le> EventCreate.average_time_minutes r \<and>
      1 \<le> Event.priority
             (Event_init utcnow i (EventCreate.name r) (EventCreate.category r)
                (EventCreate.max_participants r) (Some (EventCreate.priority r))
                (Some (EventCreate.average_time_minutes r)) (Some (EventCreate.description r))
                act ts) \<and>
      Event.priority
             (Event_init utcnow i (EventCreate.name r) (EventCreate.category r)
                (EventCreate.max_participants r) (Some (EventCreate.priority r))
                (Some (EventCreate.average_time_minutes r)) (Some (EventCreate.description r))
                act ts) \<le> 10 \<and>
      1 \<le> Event.average_time_minutes
             (Event_init utcnow i (EventCreate.name r) (EventCreate.category r)
                (EventCreate.max_participants r) (Some (EventCreate.priority r))
                (Some (EventCreate.average_time_minutes r)) (Some (EventCreate.description r))
                act ts)) \<and>
   (v < 1 \<longrightarrow> raises (EventCreate_init n c m (Some v) t d) ''priority'' greater_than_equal) \<and>
   (10 < v \<longrightarrow> raises (EventCreate_init n c m (Some v) t d) ''priority'' less_than_equal) \<and>
   (w < 1 \<longrightarrow>
      raises (EventCreate_init n c m p (Some w) d) ''average_time_minutes'' greater_than_equal)"
proof (intro conjI impI)
  assume ok: "EventCreate_init n c m p t d = Inr r"
  then have p: "with_default 1 (validate_int (Some 1) (Some 10)) ''priority'' p
      = Inr (EventCreate.priority r)"
    and t: "with_default 30 (validate_int (Some 1) None) ''average_time_minutes'' t
      = Inr (EventCreate.average_time_minutes r)"
    by (auto simp: EventCreate_init_def model_Inr_iff field_Inr_iff)
  from p show 1: "1 \<le> EventCreate.priority r" and 2: "EventCreate.priority r \<le> 10"
    by (auto simp: with_default_Inr_iff validate_int_Inr_iff split: option.splits)
  from t show 3: "1 \<le> EventCreate.average_time_minutes r"
    by (auto simp: with_default_Inr_iff validate_int_Inr_iff split: option.splits)
  let ?e = "Event_init utcnow i (EventCreate.name r) (EventCreate.category r)
                (EventCreate.max_participants r) (Some (EventCreate.priority r))
                (Some (EventCreate.average_time_minutes r)) (Some (EventCreate.description r))
                act ts"
  from 1 show "1 \<le> Event.priority ?e" by (simp add: Event_init_def or_default_def)
  from 2 show "Event.priority ?e \<le> 10" by (simp add: Event_init_def or_default_def)
  from 3 show "1 \<le> Event.average_time_minutes ?e" by (simp add: Event_init_def or_default_def)
next
  assume "v < 1"
  then show "raises (EventCreate_init n c m (Some v) t d) ''priority'' greater_than_equal"
    by (simp add: EventCreate_init_def raises_model errors_of_field with_default_def
        validate_int_def)
next
  assume "10 < v"
  then show "raises (EventCreate_init n c m (Some v) t d) ''priority'' less_than_equal"
    by (simp add: EventCreate_init_def raises_model errors_of_field with_default_def
        validate_int_def)
next
  assume "w < 1"
  then show "raises (EventCreate_init n c m p (Some w) d) ''average_time_minutes''
      greater_than_equal"
    by (simp add: EventCreate_init_def raises_model errors_of_field with_default_def
        validate_int_def)
qed

text \<open>
  The amended C2 at concrete inputs: the example of the specification is accepted, the
  priorities 0 and 11 and the average time 0 are rejected.
\<close>

theorem EventCreate_bounds_witness:
  "EventCreate_init (Some (str ''Elocution English'')) (Some (str ''Elocution'')) None
      (Some 5) (Some 20) None =
     Inr \<lparr>EventCreate.name = str ''Elocution English'', EventCreate.category = str ''Elocution'',
          EventCreate.max_participants = None, EventCreate.priority = 5,
          EventCreate.average_time_minutes = 20, EventCreate.description = str ''''\<rparr> \<and>
   raises (EventCreate_init (Some (str ''Quiz'')) (Some (str ''Quiz'')) None (Some 0) None None)
      ''priority'' greater_than_equal \<and>
   raises (EventCreate_init (Some (str ''Quiz'')) (Some (str ''Quiz'')) None (Some 11) None None)
      ''priority'' less_than_equal \<and>
   raises (EventCreate_init (Some (str ''Quiz'')) (Some (str ''Quiz'')) None None (Some 0) None)
      ''average_time_minutes'' greater_than_equal \<and>
   Event.priority
     (Event_init (Datetime 0) None (str ''Elocution English'') (str ''Elocution'') None
        (Some 5) (Some 20) (Some (str '''')) None None) \<le> 10"
proof -
  let ?r = "\<lparr>EventCreate.name = str ''Elocution English'', EventCreate.category = str ''Elocution'',
          EventCreate.max_participants = None, EventCreate.priority = 5,
          EventCreate.average_time_minutes = 20, EventCreate.description = str ''''\<rparr>"
  have c: "EventCreate_init (Some (str ''Elocution English'')) (Some (str ''Elocution'')) None
      (Some 5) (Some 20) None = Inr ?r"
    by (rule EventCreate_example_eval)
  have lo: "(0::int) < 1" and hi: "(10::int) < 11"
    by simp_all
  note ok = EventCreate_bounds [of "Some (str ''Elocution English'')" "Some (str ''Elocution'')"
      None "Some 5" "Some 20" None ?r "Datetime 0" None None None, THEN conjunct1, THEN mp, OF c]
  note ko = EventCreate_bounds [of "Some (str ''Quiz'')" "Some (str ''Quiz'')" None None None
      None _ _ _ _ _ 0 0, THEN conjunct2]
  note ko' = EventCreate_bounds [of "Some (str ''Quiz'')" "Some (str ''Quiz'')" None None None
      None _ _ _ _ _ 11, THEN conjunct2]
  have 1: "raises (EventCreate_init (Some (str ''Quiz'')) (Some (str ''Quiz'')) None (Some 0)
      None None) ''priority'' greater_than_equal"
    by (rule ko [THEN conjunct1, THEN mp, OF lo])
  have 2: "raises (EventCreate_init (Some (str ''Quiz'')) (Some (str ''Quiz'')) None (Some 11)
      None None) ''priority'' less_than_equal"
    by (rule ko' [THEN conjunct2, THEN conjunct1, THEN mp, OF hi])
  have 3: "raises (EventCreate_init (Some (str ''Quiz'')) (Some (str ''Quiz'')) None None (Some 0)
      None) ''average_time_minutes'' greater_than_equal"
    by (rule ko [THEN conjunct2, THEN conjunct2, THEN mp, OF lo])
  have 4: "Event.priority
     (Event_init (Datetime 0) None (str ''Elocution English'') (str ''Elocution'') None
        (Some 5) (Some 20) (Some (str '''')) None None) \<le> 10"
    using ok [THEN conjunct2, THEN conjunct2, THEN conjunct2, THEN conjunct2, THEN conjunct1]
    by simp
  show ?thesis
    by (intro conjI) (rule c 1 2 3 4)+
qed

section \<open>Administrator passwords\<close>

text \<open>
  C3. Constructing an \<open>AdminCreate\<close> whose password has fewer than 6 characters raises
  a \<open>ValidationError\<close> with a \<open>string_too_short\<close> entry for \<open>password\<close>, whatever the
  other arguments are; with a password of 6 to 100 characters and the other fields
  within their maximum lengths the construction succeeds and holds the arguments.
\<close>

theorem AdminCreate_password_length:
  "(length pw < 6 \<longrightarrow>
      raises (AdminCreate_init u (Some pw) n e) ''password'' string_too_short) \<and>
   (6 \<le> length pw \<and> length pw \<le> 100 \<and> length un \<le> 50 \<and> length nm \<le> 100 \<and>
    length em \<le> 255 \<longrightarrow>
      AdminCreate_init (Some un) (Some pw) (Some nm) (Some em) =
        Inr \<lparr>AdminCreate.username = un, AdminCreate.password = pw,
             AdminCreate.name = nm, AdminCreate.email = em\<rparr>)"
proof (intro conjI impI)
  assume "length pw < 6"
  then show "raises (AdminCreate_init u (Some pw) n e) ''password'' string_too_short"
    by (simp add: AdminCreate_init_def raises_model errors_of_field required_def
        validate_str_def)
next
  assume "6 \<le> length pw \<and> length pw \<le> 100 \<and> length un \<le> 50 \<and> length nm \<le> 100 \<and>
    length em \<le> 255"
  then show "AdminCreate_init (Some un) (Some pw) (Some nm) (Some em) =
        Inr \<lparr>AdminCreate.username = un, AdminCreate.password = pw,
             AdminCreate.name = nm, AdminCreate.email = em\<rparr>"
    by (simp add: AdminCreate_init_def required_def validate_str_def model_def)
qed

text \<open>C3 at a password of five characters and at one of six.\<close>

theorem AdminCreate_password_length_witness:
  "length (str ''abcde'') < 6 \<and>
   raises (AdminCreate_init (Some (str ''root'')) (Some (str ''abcde'')) (Some (str ''Root''))
      (Some (str ''r@x.org''))) ''password'' string_too_short \<and>
   6 \<le> length (str ''abcdef'') \<and>
   AdminCreate_init (Some (str ''root'')) (Some (str ''abcdef'')) (Some (str ''Root''))
      (Some (str ''r@x.org'')) =
     Inr \<lparr>AdminCreate.username = str ''root'', AdminCreate.password = str ''abcdef'',
          AdminCreate.name = str ''Root'', AdminCreate.email = str ''r@x.org''\<rparr>"
proof -
  have short: "length (str ''abcde'') < 6"
    by (simp add: str_def)
  have ok: "6 \<le> length (str ''abcdef'') \<and> length (str ''abcdef'') \<le> 100 \<and>
      length (str ''root'') \<le> 50 \<and> length (str ''Root'') \<le> 100 \<and>
      length (str ''r@x.org'') \<le> 255"
    by (simp add: str_def)
  note rejected = AdminCreate_password_length [of "str ''abcde''" "Some (str ''root'')"
      "Some (str ''Root'')" "Some (str ''r@x.org'')", THEN conjunct1, THEN mp, OF short]
  note accepted = AdminCreate_password_length [of "str ''abcdef''" _ _ _ "str ''root''"
      "str ''Root''" "str ''r@x.org''", THEN conjunct2, THEN mp, OF ok]
  show ?thesis
    by (intro conjI) (rule short rejected accepted ok [THEN conjunct1])+
qed

section \<open>Order of schedule slots\<close>

text \<open>
  C4, as stated, fails for the persisted model. \<open>ScheduleSlot\<close> is declared with
  \<open>table=True\<close>, so constructing it does not validate: the order index \<open>-1\<close> is
  stored as given and nothing is raised.
\<close>

theorem ScheduleSlot_order_index_counterexample:
  "\<not> 0 \<le> ScheduleSlot.order_index
       (ScheduleSlot_init (Datetime 0) None 1 1 (Time 9 0 0 0) (Time 10 0 0 0) None None
          (Some (- 1)) None)"
  by (simp add: ScheduleSlot_init_def or_default_def)

text \<open>
  C4, amended. Every \<open>ScheduleSlotCreate\<close> that is constructed has an order index
  of at least 0, and so has the \<open>ScheduleSlot\<close> constructed from its fields; a
  \<open>ScheduleSlotUpdate\<close> that is constructed with an order index holds it and it is at
  least 0. Constructing either shape with a negative order index raises a
  \<open>ValidationError\<close> with a \<open>greater_than_equal\<close> entry for \<open>order_index\<close>. When
  the order index is left out, a \<open>ScheduleSlotCreate\<close> and a \<open>ScheduleSlot\<close> hold 0.
\<close>

theorem ScheduleSlotCreate_order_index:
  "(ScheduleSlotCreate_init s e b f v n oi = Inr r \<longrightarrow>
      0 \<le> ScheduleSlotCreate.order_index r \<and>
      0 \<le> ScheduleSlot.order_index
             (ScheduleSlot_init utcnow i (ScheduleSlotCreate.schedule_id r)
                (ScheduleSlotCreate.event_id r) (ScheduleSlotCreate.start_time r)
                (ScheduleSlotCreate.end_time r) (Some (ScheduleSlotCreate.venue r))
                (Some (ScheduleSlotCreate.notes r)) (Some (ScheduleSlotCreate.order_index r))
                ts)) \<and>
   (x < 0 \<longrightarrow>
      raises (ScheduleSlotCreate_init s e b f v n (Some x)) ''order_index''
        greater_than_equal) \<and>
   (ScheduleSlotCreate_init s e b f v n None = Inr r' \<longrightarrow>
      ScheduleSlotCreate.order_index r' = 0) \<and>
   (ScheduleSlotUpdate_init b f v n (Some x) = Inr u \<longrightarrow>
      0 \<le> x \<and> ScheduleSlotUpdate.order_index u = Some x) \<and>
   (x < 0 \<longrightarrow>
      raises (ScheduleSlotUpdate_init b f v n (Some x)) ''order_index'' greater_than_equal) \<and>
   ScheduleSlot.order_index
     (ScheduleSlot_init utcnow i sid eid st en ve no None ts) = 0"
proof (intro conjI impI)
  assume "ScheduleSlotCreate_init s e b f v n oi = Inr r"
  then have "with_default 0 (validate_int (Some 0) None) ''order_index'' oi
      = Inr (ScheduleSlotCreate.order_index r)"
    by (auto simp: ScheduleSlotCreate_init_def model_Inr_iff field_Inr_iff)
  then show 1: "0 \<le> ScheduleSlotCreate.order_index r"
    by (auto simp: with_default_Inr_iff validate_int_Inr_iff split: option.splits)
  then show "0 \<le> ScheduleSlot.order_index
             (ScheduleSlot_init utcnow i (ScheduleSlotCreate.schedule_id r)
                (ScheduleSlotCreate.event_id r) (ScheduleSlotCreate.start_time r)
                (ScheduleSlotCreate.end_time r) (Some (ScheduleSlotCreate.venue r))
                (Some (ScheduleSlotCreate.notes r)) (Some (ScheduleSlotCreate.order_index r))
                ts)"
    by (simp add: ScheduleSlot_init_def or_default_def)
next
  assume "x < 0"
  then show "raises (ScheduleSlotCreate_init s e b f v n (Some x)) ''order_index''
      greater_than_equal"
    by (simp add: ScheduleSlotCreate_init_def raises_model errors_of_field with_default_def
        validate_int_def)
next
  assume "ScheduleSlotCreate_init s e b f v n None = Inr r'"
  then show "ScheduleSlotCreate.order_index r' = 0"
    by (auto simp: ScheduleSlotCreate_init_def model_Inr_iff field_Inr_iff with_default_def)
next
  assume "ScheduleSlotUpdate_init b f v n (Some x) = Inr u"
  then have "optional (validate_int (Some 0) None) ''order_index'' (Some x)
      = Inr (ScheduleSlotUpdate.order_index u)"
    by (auto simp: ScheduleSlotUpdate_init_def model_Inr_iff field_Inr_iff)
  then show "0 \<le> x" and "ScheduleSlotUpdate.order_index u = Some x"
    by (auto simp: optional_Inr_iff validate_int_Inr_iff)
next
  assume "x < 0"
  then show "raises (ScheduleSlotUpdate_init b f v n (Some x)) ''order_index''
      greater_than_equal"
    by (simp add: ScheduleSlotUpdate_init_def raises_model errors_of_field optional_def
        validate_int_def)
next
  show "ScheduleSlot.order_index (ScheduleSlot_init utcnow i sid eid st en ve no None ts) = 0"
    by (simp add: ScheduleSlot_init_def or_default_def)
qed

text \<open>
  The amended C4 at concrete inputs: a slot created without an order index, an update
  to the order index 3, and both shapes rejecting \<open>-1\<close>.
\<close>

theorem ScheduleSlotCreate_order_index_witness:
  "ScheduleSlotCreate_init (Some 1) (Some 2) (Some (Time 9 0 0 0)) (Some (Time 9 30 0 0))
      None None None =
     Inr \<lparr>ScheduleSlotCreate.schedule_id = 1, ScheduleSlotCreate.event_id = 2,
          ScheduleSlotCreate.start_time = Time 9 0 0 0,
          ScheduleSlotCreate.end_time = Time 9 30 0 0,
          ScheduleSlotCreate.venue = str '''', ScheduleSlotCreate.notes = str '''',
          ScheduleSlotCreate.order_index = 0\<rparr> \<and>
   raises (ScheduleSlotCreate_init (Some 1) (Some 2) (Some (Time 9 0 0 0))
      (Some (Time 9 30 0 0)) None None (Some (- 1))) ''order_index'' greater_than_equal \<and>
   ScheduleSlotUpdate_init None None None None (Some 3) =
     Inr \<lparr>ScheduleSlotUpdate.start_time = None, ScheduleSlotUpdate.end_time = None,
          ScheduleSlotUpdate.venue = None, ScheduleSlotUpdate.notes = None,
          ScheduleSlotUpdate.order_index = Some 3\<rparr> \<and>
   raises (ScheduleSlotUpdate_init None None None None (Some (- 1))) ''order_index''
      greater_than_equal"
proof -
  let ?r = "\<lparr>ScheduleSlotCreate.schedule_id = 1, ScheduleSlotCreate.event_id = 2,
          ScheduleSlotCreate.start_time = Time 9 0 0 0,
          ScheduleSlotCreate.end_time = Time 9 30 0 0,
          ScheduleSlotCreate.venue = str '''', ScheduleSlotCreate.notes = str '''',
          ScheduleSlotCreate.order_index = 0\<rparr>"
  let ?u = "\<lparr>ScheduleSlotUpdate.start_time = None, ScheduleSlotUpdate.end_time = None,
          ScheduleSlotUpdate.venue = None, ScheduleSlotUpdate.notes = None,
          ScheduleSlotUpdate.order_index = Some 3\<rparr>"
  have c: "ScheduleSlotCreate_init (Some 1) (Some 2) (Some (Time 9 0 0 0))
      (Some (Time 9 30 0 0)) None None None = Inr ?r"
    by (simp add: ScheduleSlotCreate_init_def init_eval)
  have u: "ScheduleSlotUpdate_init None None None None (Some 3) = Inr ?u"
    by (simp add: ScheduleSlotUpdate_init_def init_eval)
  have neg: "(- 1 :: int) < 0"
    by simp
  note ok = ScheduleSlotCreate_order_index [where s = "Some 1" and e = "Some 2"
      and b = "Some (Time 9 0 0 0)" and f = "Some (Time 9 30 0 0)" and v = None and n = None
      and r' = ?r]
  note up = ScheduleSlotCreate_order_index [where b = None and f = None and v = None
      and n = None and x = 3 and u = ?u]
  note ko = ScheduleSlotCreate_order_index [where s = "Some 1" and e = "Some 2"
      and b = "Some (Time 9 0 0 0)" and f = "Some (Time 9 30 0 0)" and v = None and n = None
      and x = "- 1"]
  note ko' = ScheduleSlotCreate_order_index [where b = None and f = None and v = None
      and n = None and x = "- 1"]
  have 0: "ScheduleSlotCreate.order_index ?r = 0"
    by (rule ok [THEN conjunct2, THEN conjunct2, THEN conjunct1, THEN mp, OF c])
  have 1: "raises (ScheduleSlotCreate_init (Some 1) (Some 2) (Some (Time 9 0 0 0))
      (Some (Time 9 30 0 0)) None None (Some (- 1))) ''order_index'' greater_than_equal"
    by (rule ko [THEN conjunct2, THEN conjunct1, THEN mp, OF neg])
  have 2: "raises (ScheduleSlotUpdate_init None None None None (Some (- 1))) ''order_index''
      greater_than_equal"
    by (rule ko' [THEN conjunct2, THEN conjunct2, THEN conjunct2, THEN conjunct2, THEN conjunct1,
          THEN mp, OF neg])
  have 3: "(0::int) \<le> 3"
    by (rule up [THEN conjunct2, THEN conjunct2, THEN conjunct2, THEN conjunct1, THEN mp, OF u,
          THEN conjunct1])
  show ?thesis
    by (intro conjI) (rule c 1 u 2)+
qed

section \<open>The example event\<close>

text \<open>
  C5. \<open>EventCreate(name="Elocution English", category="Elocution", priority=5,
  average_time_minutes=20)\<close> is constructed without error, and the \<open>Event\<close>
  constructed from its fields, with \<open>is_active\<close> and \<open>created_at\<close> left out, has
  \<open>is_active = True\<close> and the clock's reading as \<open>created_at\<close>.
\<close>

theorem EventCreate_example:
  "EventCreate_init (Some (str ''Elocution English'')) (Some (str ''Elocution'')) None
      (Some 5) (Some 20) None =
     Inr \<lparr>EventCreate.name = str ''Elocution English'', EventCreate.category = str ''Elocution'',
          EventCreate.max_participants = None, EventCreate.priority = 5,
          EventCreate.average_time_minutes = 20, EventCreate.description = str ''''\<rparr> \<and>
   Event.is_active
     (Event_init utcnow None (str ''Elocution English'') (str ''Elocution'') None (Some 5)
        (Some 20) (Some (str '''')) None None) = True \<and>
   Event.created_at
     (Event_init utcnow None (str ''Elocution English'') (str ''Elocution'') None (Some 5)
        (Some 20) (Some (str '''')) None None) = utcnow"
  using EventCreate_example_eval by (simp add: Event_init_def or_default_def)

section \<open>Sparse updates\<close>

text \<open>
  C6. For each of the four Update shapes: a field of the shape that holds \<open>None\<close>
  leaves the entity's field as it was, a field that holds a value sets the entity's
  field to it, and the fields of the entity that the shape does not have are unchanged.
\<close>

theorem update_changes_only_provided_fields:
  "(AdminUpdate.name au = None \<longrightarrow> Admin.name (Admin_update a au) = Admin.name a) \<and>
   (\<forall>v. AdminUpdate.name au = Some v \<longrightarrow> Admin.name (Admin_update a au) = v) \<and>
   (AdminUpdate.email au = None \<longrightarrow> Admin.email (Admin_update a au) = Admin.email a) \<and>
   (\<forall>v. AdminUpdate.email au = Some v \<longrightarrow> Admin.email (Admin_update a au) = v) \<and>
   (AdminUpdate.is_active au = None \<longrightarrow> Admin.is_active (Admin_update a au) = Admin.is_active a) \<and>
   (\<forall>v. AdminUpdate.is_active au = Some v \<longrightarrow> Admin.is_active (Admin_update a au) = v) \<and>
   Admin.id (Admin_update a au) = Admin.id a \<and>
   Admin.username (Admin_update a au) = Admin.username a \<and>
   Admin.password_hash (Admin_update a au) = Admin.password_hash a \<and>
   Admin.created_at (Admin_update a au) = Admin.created_at a \<and>
   (StudentUpdate.name su = None \<longrightarrow> Student.name (Student_update s su) = Student.name s) \<and>
   (\<forall>v. StudentUpdate.name su = Some v \<longrightarrow> Student.name (Student_update s su) = v) \<and>
   (StudentUpdate.class_name su = None \<longrightarrow> Student.class_name (Student_update s su) = Student.class_name s) \<and>
   (\<forall>v. StudentUpdate.class_name su = Some v \<longrightarrow> Student.class_name (Student_update s su) = v) \<and>
   (StudentUpdate.category su = None \<longrightarrow> Student.category (Student_update s su) = Student.category s) \<and>
   (\<forall>v. StudentUpdate.category su = Some v \<longrightarrow> Student.category (Student_update s su) = StudentCategory_value v) \<and>
   (StudentUpdate.is_active su = None \<longrightarrow> Student.is_active (Student_update s su) = Student.is_active s) \<and>
   (\<forall>v. StudentUpdate.is_active su = Some v \<longrightarrow> Student.is_active (Student_update s su) = v) \<and>
   Student.id (Student_update s su) = Student.id s \<and>
   Student.created_at (Student_update s su) = Student.created_at s \<and>
   (EventUpdate.name eu = None \<longrightarrow> Event.name (Event_update e eu) = Event.name e) \<and>
   (\<forall>v. EventUpdate.name eu = Some v \<longrightarrow> Event.name (Event_update e eu) = v) \<and>
   (EventUpdate.category eu = None \<longrightarrow> Event.category (Event_update e eu) = Event.category e) \<and>
   (\<forall>v. EventUpdate.category eu = Some v \<longrightarrow> Event.category (Event_update e eu) = v) \<and>
   (EventUpdate.max_participants eu = None \<longrightarrow> Event.max_participants (Event_update e eu) = Event.max_participants e) \<and>
   (\<forall>v. EventUpdate.max_participants eu = Some v \<longrightarrow> Event.max_participants (Event_update e eu) = Some v) \<and>
   (EventUpdate.priority eu = None \<longrightarrow> Event.priority (Event_update e eu) = Event.priority e) \<and>
   (\<forall>v. EventUpdate.priority eu = Some v \<longrightarrow> Event.priority (Event_update e eu) = v) \<and>
   (EventUpdate.average_time_minutes eu = None \<longrightarrow> Event.average_time_minutes (Event_update e eu) = Event.average_time_minutes e) \<and>
   (\<forall>v. EventUpdate.average_time_minutes eu = Some v \<longrightarrow> Event.average_time_minutes (Event_update e eu) = v) \<and>
   (EventUpdate.description eu = None \<longrightarrow> Event.description (Event_update e eu) = Event.description e) \<and>
   (\<forall>v. EventUpdate.description eu = Some v \<longrightarrow> Event.description (Event_update e eu) = v) \<and>
   (EventUpdate.is_active eu = None \<longrightarrow> Event.is_active (Event_update e eu) = Event.is_active e) \<and>
   (\<forall>v. EventUpdate.is_active eu = Some v \<longrightarrow> Event.is_active (Event_update e eu) = v) \<and>
   Event.id (Event_update e eu) = Event.id e \<and>
   Event.created_at (Event_update e eu) = Event.created_at e \<and>
   (ScheduleSlotUpdate.start_time slu = None \<longrightarrow> ScheduleSlot.start_time (ScheduleSlot_update sl slu) = ScheduleSlot.start_time sl) \<and>
   (\<forall>v. ScheduleSlotUpdate.start_time slu = Some v \<longrightarrow> ScheduleSlot.start_time (ScheduleSlot_update sl slu) = v) \<and>
   (ScheduleSlotUpdate.end_time slu = None \<longrightarrow> ScheduleSlot.end_time (ScheduleSlot_update sl slu) = ScheduleSlot.end_time sl) \<and>
   (\<forall>v. ScheduleSlotUpdate.end_time slu = Some v \<longrightarrow> ScheduleSlot.end_time (ScheduleSlot_update sl slu) = v) \<and>
   (ScheduleSlotUpdate.venue slu = None \<longrightarrow> ScheduleSlot.venue (ScheduleSlot_update sl slu) = ScheduleSlot.venue sl) \<and>
   (\<forall>v. ScheduleSlotUpdate.venue slu = Some v \<longrightarrow> ScheduleSlot.venue (ScheduleSlot_update sl slu) = v) \<and>
   (ScheduleSlotUpdate.notes slu = None \<longrightarrow> ScheduleSlot.notes (ScheduleSlot_update sl slu) = ScheduleSlot.notes sl) \<and>
   (\<forall>v. ScheduleSlotUpdate.notes slu = Some v \<longrightarrow> ScheduleSlot.notes (ScheduleSlot_update sl slu) = v) \<and>
   (ScheduleSlotUpdate.order_index slu = None \<longrightarrow> ScheduleSlot.order_index (ScheduleSlot_update sl slu) = ScheduleSlot.order_index sl) \<and>
   (\<forall>v. ScheduleSlotUpdate.order_index slu = Some v \<longrightarrow> ScheduleSlot.order_index (ScheduleSlot_update sl slu) = v) \<and>
   ScheduleSlot.id (ScheduleSlot_update sl slu) = ScheduleSlot.id sl \<and>
   ScheduleSlot.schedule_id (ScheduleSlot_update sl slu) = ScheduleSlot.schedule_id sl \<and>
   ScheduleSlot.event_id (ScheduleSlot_update sl slu) = ScheduleSlot.event_id sl \<and>
   ScheduleSlot.created_at (ScheduleSlot_update sl slu) = ScheduleSlot.created_at sl"
  by (simp add: Admin_update_def Student_update_def Event_update_def ScheduleSlot_update_def
      provided_def)

text \<open>
  C6 at one update of each kind, with some fields provided and the others left out.
\<close>

theorem update_changes_only_provided_fields_witness:
  "Admin.name
     (Admin_update
        (Admin_init (Datetime 0) (Some 1) (str ''root'') (str ''hash'') (str ''Root'')
           (str ''r@x.org'') None None)
        \<lparr>AdminUpdate.name = Some (str ''Admin''), AdminUpdate.email = None,
         AdminUpdate.is_active = None\<rparr>) = str ''Admin'' \<and>
   Admin.email
     (Admin_update
        (Admin_init (Datetime 0) (Some 1) (str ''root'') (str ''hash'') (str ''Root'')
           (str ''r@x.org'') None None)
        \<lparr>AdminUpdate.name = Some (str ''Admin''), AdminUpdate.email = None,
         AdminUpdate.is_active = None\<rparr>) = str ''r@x.org'' \<and>
   Admin.is_active
     (Admin_update
        (Admin_init (Datetime 0) (Some 1) (str ''root'') (str ''hash'') (str ''Root'')
           (str ''r@x.org'') None None)
        \<lparr>AdminUpdate.name = Some (str ''Admin''), AdminUpdate.email = None,
         AdminUpdate.is_active = None\<rparr>) = True \<and>
   Student.name
     (Student_update
        (Student_init (Datetime 0) (Some 1) (str ''Asha'') (str ''5 B'') None None None)
        \<lparr>StudentUpdate.name = None, StudentUpdate.class_name = Some (str ''6 A''),
         StudentUpdate.category = Some JUNIOR, StudentUpdate.is_active = None\<rparr>)
     = str ''Asha'' \<and>
   Student.category
     (Student_update
        (Student_init (Datetime 0) (Some 1) (str ''Asha'') (str ''5 B'') None None None)
        \<lparr>StudentUpdate.name = None, StudentUpdate.class_name = Some (str ''6 A''),
         StudentUpdate.category = Some JUNIOR, StudentUpdate.is_active = None\<rparr>)
     = str ''Junior'' \<and>
   Event.priority
     (Event_update
        (Event_init (Datetime 0) (Some 1) (str ''Quiz'') (str ''Quiz'') None None None None
           None None)
        \<lparr>EventUpdate.name = None, EventUpdate.category = None,
         EventUpdate.max_participants = Some 8, EventUpdate.priority = Some 5,
         EventUpdate.average_time_minutes = None, EventUpdate.description = None,
         EventUpdate.is_active = None\<rparr>) = 5 \<and>
   Event.average_time_minutes
     (Event_update
        (Event_init (Datetime 0) (Some 1) (str ''Quiz'') (str ''Quiz'') None None None None
           None None)
        \<lparr>EventUpdate.name = None, EventUpdate.category = None,
         EventUpdate.max_participants = Some 8, EventUpdate.priority = Some 5,
         EventUpdate.average_time_minutes = None, EventUpdate.description = None,
         EventUpdate.is_active = None\<rparr>) = 30 \<and>
   ScheduleSlot.start_time
     (ScheduleSlot_update
        (ScheduleSlot_init (Datetime 0) (Some 1) 1 2 (Time 9 0 0 0) (Time 9 30 0 0) None None
           None None)
        \<lparr>ScheduleSlotUpdate.start_time = None,
         ScheduleSlotUpdate.end_time = Some (Time 10 0 0 0),
         ScheduleSlotUpdate.venue = Some (str ''Hall''), ScheduleSlotUpdate.notes = None,
         ScheduleSlotUpdate.order_index = None\<rparr>) = Time 9 0 0 0 \<and>
   ScheduleSlot.end_time
     (ScheduleSlot_update
        (ScheduleSlot_init (Datetime 0) (Some 1) 1 2 (Time 9 0 0 0) (Time 9 30 0 0) None None
           None None)
        \<lparr>ScheduleSlotUpdate.start_time = None,
         ScheduleSlotUpdate.end_time = Some (Time 10 0 0 0),
         ScheduleSlotUpdate.venue = Some (str ''Hall''), ScheduleSlotUpdate.notes = None,
         ScheduleSlotUpdate.order_index = None\<rparr>) = Time 10 0 0 0"
proof -
  let ?a = "Admin_init (Datetime 0) (Some 1) (str ''root'') (str ''hash'') (str ''Root'')
        (str ''r@x.org'') None None"
  let ?s = "Student_init (Datetime 0) (Some 1) (str ''Asha'') (str ''5 B'') None None None"
  let ?e = "Event_init (Datetime 0) (Some 1) (str ''Quiz'') (str ''Quiz'') None None None None
        None None"
  let ?sl = "ScheduleSlot_init (Datetime 0) (Some 1) 1 2 (Time 9 0 0 0) (Time 9 30 0 0) None
        None None None"
  let ?au = "\<lparr>AdminUpdate.name = Some (str ''Admin''), AdminUpdate.email = None,
        AdminUpdate.is_active = None\<rparr>"
  let ?su = "\<lparr>StudentUpdate.name = None, StudentUpdate.class_name = Some (str ''6 A''),
      StudentUpdate.category = Some JUNIOR, StudentUpdate.is_active = None\<rparr>"
  let ?eu = "\<lparr>EventUpdate.name = None, EventUpdate.category = None,
      EventUpdate.max_participants = Some 8, EventUpdate.priority = Some 5,
      EventUpdate.average_time_minutes = None, EventUpdate.description = None,
      EventUpdate.is_active = None\<rparr>"
  let ?slu = "\<lparr>ScheduleSlotUpdate.start_time = None,
      ScheduleSlotUpdate.end_time = Some (Time 10 0 0 0),
      ScheduleSlotUpdate.venue = Some (str ''Hall''), ScheduleSlotUpdate.notes = None,
      ScheduleSlotUpdate.order_index = None\<rparr>"
  note at_input = update_changes_only_provided_fields [where a = ?a and s = ?s and e = ?e
      and sl = ?sl and au = ?au and su = ?su and eu = ?eu and slu = ?slu]
  from at_input show ?thesis
    by (simp add: Admin_init_def Student_init_def Event_init_def ScheduleSlot_init_def
        or_default_def)
qed

section \<open>Participant assignments\<close>

text \<open>
  C7. The \<open>__table_args__\<close> of \<open>EventParticipant\<close> hold no unique constraint, and
  for every student and event two distinct \<open>EventParticipant\<close> records with that pair
  are constructed; two \<open>EventParticipantCreate\<close> inputs with the same pair are both
  accepted.
\<close>

theorem EventParticipant_pair_not_unique:
  "unique_constraints EventParticipant_table_args = [] \<and>
   (\<exists>p q. p = EventParticipant_init utcnow (Some 1) s e a None \<and>
           q = EventParticipant_init utcnow (Some 2) s e a None \<and>
           p \<noteq> q \<and>
           EventParticipant.student_id p = s \<and> EventParticipant.student_id q = s \<and>
           EventParticipant.event_id p = e \<and> EventParticipant.event_id q = e) \<and>
   EventParticipantCreate_init (Some s) (Some e) (Some a) =
     Inr \<lparr>EventParticipantCreate.student_id = s, EventParticipantCreate.event_id = e,
          EventParticipantCreate.assigned_by_admin_id = a\<rparr> \<and>
   EventParticipantCreate_init (Some s) (Some e) (Some a') =
     Inr \<lparr>EventParticipantCreate.student_id = s, EventParticipantCreate.event_id = e,
          EventParticipantCreate.assigned_by_admin_id = a'\<rparr>"
  by (simp add: EventParticipant_table_args_def EventParticipant_init_def or_default_def
      EventParticipantCreate_init_def model_def required_def validate_any_def)

section \<open>Login passwords\<close>

text \<open>
  C8. \<open>AdminLogin\<close> is constructed for every password of at most 100 characters
  (with a username of at most 50), the empty password included, while \<open>AdminCreate\<close>
  rejects the empty password as too short. The maximum is the only bound on the
  password of an \<open>AdminLogin\<close>: a password of more than 100 characters raises a
  \<open>ValidationError\<close> with a \<open>string_too_long\<close> entry for \<open>password\<close>, whatever the
  username is, and no password raises a \<open>string_too_short\<close> entry.
\<close>

theorem AdminLogin_password_no_min_length:
  "(length un \<le> 50 \<and> length pw \<le> 100 \<longrightarrow>
      AdminLogin_init (Some un) (Some pw) =
        Inr \<lparr>AdminLogin.username = un, AdminLogin.password = pw\<rparr>) \<and>
   (length un \<le> 50 \<longrightarrow>
      AdminLogin_init (Some un) (Some (str '''')) =
        Inr \<lparr>AdminLogin.username = un, AdminLogin.password = str ''''\<rparr>) \<and>
   raises (AdminCreate_init u (Some (str '''')) n e) ''password'' string_too_short \<and>
   (100 < length pw \<longrightarrow>
      raises (AdminLogin_init u (Some pw)) ''password'' string_too_long) \<and>
   \<not> raises (AdminLogin_init u (Some pw)) ''password'' string_too_short"
proof (intro conjI impI)
  assume "length un \<le> 50 \<and> length pw \<le> 100"
  then show "AdminLogin_init (Some un) (Some pw) =
        Inr \<lparr>AdminLogin.username = un, AdminLogin.password = pw\<rparr>"
    by (simp add: AdminLogin_init_def required_def validate_str_def model_def)
next
  assume "length un \<le> 50"
  then show "AdminLogin_init (Some un) (Some (str '''')) =
        Inr \<lparr>AdminLogin.username = un, AdminLogin.password = str ''''\<rparr>"
    by (simp add: AdminLogin_init_def required_def validate_str_def model_def str_def)
next
  show "raises (AdminCreate_init u (Some (str '''')) n e) ''password'' string_too_short"
    by (simp add: AdminCreate_init_def raises_model errors_of_field required_def
        validate_str_def str_def)
next
  assume "100 < length pw"
  then show "raises (AdminLogin_init u (Some pw)) ''password'' string_too_long"
    by (simp add: AdminLogin_init_def raises_model errors_of_field required_def
        validate_str_def)
next
  show "\<not> raises (AdminLogin_init u (Some pw)) ''password'' string_too_short"
    by (simp add: AdminLogin_init_def raises_model errors_of_field required_def
        validate_str_def split: option.splits)
qed

text \<open>
  C8 at the username \<open>root\<close> with a password of three characters, with the empty
  password, and with a password of 101 characters.
\<close>

theorem AdminLogin_password_no_min_length_witness:
  "AdminLogin_init (Some (str ''root'')) (Some (str ''abc'')) =
     Inr \<lparr>AdminLogin.username = str ''root'', AdminLogin.password = str ''abc''\<rparr> \<and>
   AdminLogin_init (Some (str ''root'')) (Some (str '''')) =
     Inr \<lparr>AdminLogin.username = str ''root'', AdminLogin.password = str ''''\<rparr> \<and>
   raises (AdminCreate_init (Some (str ''root'')) (Some (str '''')) (Some (str ''Root''))
      (Some (str ''r@x.org''))) ''password'' string_too_short \<and>
   100 < length (str (replicate 101 CHR ''a'')) \<and>
   raises (AdminLogin_init (Some (str ''root'')) (Some (str (replicate 101 CHR ''a''))))
      ''password'' string_too_long"
proof -
  have b: "length (str ''root'') \<le> 50 \<and> length (str ''abc'') \<le> 100"
    by (simp add: str_def)
  have long: "100 < length (str (replicate 101 CHR ''a''))"
    by (simp add: str_def)
  note t = AdminLogin_password_no_min_length [where un = "str ''root''" and pw = "str ''abc''"
      and u = "Some (str ''root'')" and n = "Some (str ''Root'')"
      and e = "Some (str ''r@x.org'')"]
  note t' = AdminLogin_password_no_min_length [where pw = "str (replicate 101 CHR ''a'')"
      and u = "Some (str ''root'')"]
  show ?thesis
    by (intro conjI)
      (rule t [THEN conjunct1, THEN mp, OF b]
        t [THEN conjunct2, THEN conjunct1, THEN mp, OF b [THEN conjunct1]]
        t [THEN conjunct2, THEN conjunct2, THEN conjunct1]
        long
        t' [THEN conjunct2, THEN conjunct2, THEN conjunct2, THEN conjunct1, THEN mp, OF long])+
qed

section \<open>Default category\<close>

text \<open>
  C9. A \<open>Student\<close> constructed without a category holds \<open>"Sub Junior"\<close>, the
  value of \<open>StudentCategory.SUB_JUNIOR\<close>; a \<open>StudentCreate\<close> without a category,
  with name and class name within their maximum lengths, is constructed and holds
  \<open>SUB_JUNIOR\<close>.
\<close>

theorem category_default:
  "Student.category (Student_init utcnow i nm cl None act ts) = StudentCategory_value SUB_JUNIOR \<and>
   StudentCategory_value SUB_JUNIOR = str ''Sub Junior'' \<and>
   (length nm \<le> 100 \<and> length cl \<le> 50 \<longrightarrow>
      StudentCreate_init (Some nm) (Some cl) None =
        Inr \<lparr>StudentCreate.name = nm, StudentCreate.class_name = cl,
             StudentCreate.category = SUB_JUNIOR\<rparr>)"
  by (simp add: Student_init_def or_default_def StudentCreate_init_def model_def required_def
      with_default_def validate_str_def)

text \<open>
  C9 at a student named \<open>Asha\<close> of class \<open>5 B\<close>.
\<close>

theorem category_default_witness:
  "length (str ''Asha'') \<le> 100 \<and> length (str ''5 B'') \<le> 50 \<and>
   StudentCreate_init (Some (str ''Asha'')) (Some (str ''5 B'')) None =
     Inr \<lparr>StudentCreate.name = str ''Asha'', StudentCreate.class_name = str ''5 B'',
          StudentCreate.category = SUB_JUNIOR\<rparr>"
proof -
  have b: "length (str ''Asha'') \<le> 100 \<and> length (str ''5 B'') \<le> 50"
    by (simp add: str_def)
  note t = category_default [of "Datetime 0" None "str ''Asha''" "str ''5 B''" None None,
      THEN conjunct2, THEN conjunct2, THEN mp, OF b]
  show ?thesis
    by (intro conjI) (rule t b [THEN conjunct1] b [THEN conjunct2])+
qed

section \<open>Start and end of a slot\<close>

text \<open>
  C10. There is a pair of times with the end earlier than the start, and a pair with
  the end equal to the start, for which \<open>ScheduleSlotCreate\<close> is constructed and
  holds them. Indeed every pair of times is accepted, by \<open>ScheduleSlotCreate\<close> and by
  \<open>ScheduleSlot\<close>: no declaration relates the two fields.
\<close>

theorem ScheduleSlotCreate_times_unrelated:
  "(\<exists>st en r. time_lt en st \<and> time_le en st \<and>
      ScheduleSlotCreate_init (Some 1) (Some 2) (Some st) (Some en) None None None = Inr r \<and>
      ScheduleSlotCreate.start_time r = st \<and> ScheduleSlotCreate.end_time r = en) \<and>
   (\<exists>st r. time_le st st \<and>
      ScheduleSlotCreate_init (Some 1) (Some 2) (Some st) (Some st) None None None = Inr r \<and>
      ScheduleSlotCreate.start_time r = st \<and> ScheduleSlotCreate.end_time r = st) \<and>
   ScheduleSlotCreate_init (Some sid) (Some eid) (Some st') (Some en') None None None =
     Inr \<lparr>ScheduleSlotCreate.schedule_id = sid, ScheduleSlotCreate.event_id = eid,
          ScheduleSlotCreate.start_time = st', ScheduleSlotCreate.end_time = en',
          ScheduleSlotCreate.venue = str '''', ScheduleSlotCreate.notes = str '''',
          ScheduleSlotCreate.order_index = 0\<rparr> \<and>
   ScheduleSlot.start_time
     (ScheduleSlot_init utcnow i sid eid st' en' ve no oi ts) = st' \<and>
   ScheduleSlot.end_time
     (ScheduleSlot_init utcnow i sid eid st' en' ve no oi ts) = en'"
proof -
  have all: "\<And>sid eid st en.
     ScheduleSlotCreate_init (Some sid) (Some eid) (Some st) (Some en) None None None =
     Inr \<lparr>ScheduleSlotCreate.schedule_id = sid, ScheduleSlotCreate.event_id = eid,
          ScheduleSlotCreate.start_time = st, ScheduleSlotCreate.end_time = en,
          ScheduleSlotCreate.venue = str '''', ScheduleSlotCreate.notes = str '''',
          ScheduleSlotCreate.order_index = 0\<rparr>"
    by (simp add: ScheduleSlotCreate_init_def model_def required_def with_default_def
        validate_any_def)
  have lt: "time_lt (Time 9 0 0 0) (Time 10 30 0 0)"
    by (simp add: time_lt_def)
  have 1: "\<exists>st en r. time_lt en st \<and> time_le en st \<and>
      ScheduleSlotCreate_init (Some 1) (Some 2) (Some st) (Some en) None None None = Inr r \<and>
      ScheduleSlotCreate.start_time r = st \<and> ScheduleSlotCreate.end_time r = en"
    apply (rule exI [of _ "Time 10 30 0 0"])
    apply (rule exI [of _ "Time 9 0 0 0"])
    apply (simp add: all lt time_le_def)
    done
  have 2: "\<exists>st r. time_le st st \<and>
      ScheduleSlotCreate_init (Some 1) (Some 2) (Some st) (Some st) None None None = Inr r \<and>
      ScheduleSlotCreate.start_time r = st \<and> ScheduleSlotCreate.end_time r = st"
    by (simp add: all time_le_def)
  show ?thesis
    by (intro conjI 1 2 all) (simp_all add: ScheduleSlot_init_def)
qed

end
